theory Spec2Isabelle
  imports Complex_Main
begin

section \<open>Values, requests and effects\<close>

text \<open>
  The program is \<^verbatim>\<open>src/spriteGeneration/generate_scenario_sprites.py\<close>. Its two
  functions, \<^verbatim>\<open>poll_job_status\<close> and \<^verbatim>\<open>generate_img2img_sprite_sheet\<close>, talk to a
  remote service through the \<^verbatim>\<open>requests\<close> library, sleep, print and write one file.

  A value decoded from a JSON body is a \<open>json\<close>; Python's \<^verbatim>\<open>None\<close> is \<open>JNull\<close>. A
  dict is an association list read with \<open>map_of\<close>.
\<close>

datatype json =
    JNull
  | JBool bool
  | JInt int
  | JFloat real
  | JStr string
  | JArr "json list"
  | JObj "(string \<times> json) list"

type_synonym bytes = string

text \<open>
  The exceptions the two functions can end with. \<open>Exception m\<close> is the builtin
  \<^verbatim>\<open>Exception(m)\<close> that the source raises itself; \<open>HTTPError c\<close> is what
  \<^verbatim>\<open>raise_for_status\<close> raises on status code \<open>c\<close>; \<open>RequestException\<close> is a call of
  \<^verbatim>\<open>requests\<close> that got no response; \<open>MissingSchema\<close> and \<open>URLRefused\<close> are
  \<^verbatim>\<open>requests\<close> refusing a URL before any traffic (\<open>URLRefused\<close> stands for the
  library's \<^verbatim>\<open>MissingSchema\<close>, \<^verbatim>\<open>InvalidSchema\<close> or \<^verbatim>\<open>InvalidURL\<close>, whichever the text
  of the URL gets); the others are the builtin errors of subscripting, attribute access,
  \<^verbatim>\<open>open\<close> and \<^verbatim>\<open>write\<close>.
\<close>

datatype error =
    Exception string
  | HTTPError nat
  | RequestException
  | MissingSchema
  | URLRefused
  | JSONDecodeError
  | KeyError
  | TypeError
  | IndexError
  | AttributeError
  | OSError

text \<open>
  An HTTP response: the status code, the result of \<^verbatim>\<open>.json()\<close> (\<open>None\<close> when the
  body is not JSON) and the raw body (\<^verbatim>\<open>.content\<close>, \<^verbatim>\<open>.text\<close>).
\<close>

record response =
  status_code :: nat
  json_body :: "json option"
  content :: bytes

text \<open>
  The four requests of the program. The URL of a status query is determined by the
  job identifier formatted into it; the bodies of the two POSTs are the dicts given to
  \<^verbatim>\<open>json.dumps\<close>. The authorization header is the same constant on the first three.
\<close>

datatype request =
    Get_job json
  | Post_img2img json
  | Post_remove_background json
  | Get_url string

datatype event =
    Http request
  | Sleep nat
  | Print string "json list"
  | Open string

text \<open>
  The remote side is a parameter: a transition function on a backend state \<open>'b\<close> that
  answers a request with a response, or with \<open>None\<close> when the call fails without one.
  A computation takes the backend state and, unless it runs forever (\<open>None\<close>), gives
  the value returned or the exception raised, the new backend state, and the effects in
  the order they happened: the requests made, the sleeps, the lines printed, and
  \<open>Open p\<close> for a call of \<^verbatim>\<open>open(p, "wb")\<close>.
\<close>

type_synonym 'b backend = "'b \<Rightarrow> request \<Rightarrow> response option \<times> 'b"

type_synonym ('a, 'b) io = "'b \<Rightarrow> ((error + 'a) \<times> 'b \<times> event list) option"

definition ret :: "'a \<Rightarrow> ('a, 'b) io" where
  "ret x b = Some (Inr x, b, [])"

definition raise :: "error \<Rightarrow> ('a, 'b) io" where
  "raise e b = Some (Inl e, b, [])"

definition lift :: "error + 'a \<Rightarrow> ('a, 'b) io" where
  "lift r b = Some (r, b, [])"

definition print :: "string \<Rightarrow> json list \<Rightarrow> (unit, 'b) io" where
  "print text vals b = Some (Inr (), b, [Print text vals])"

definition sleep :: "nat \<Rightarrow> (unit, 'b) io" where
  "sleep secs b = Some (Inr (), b, [Sleep secs])"

definition prepend :: "event list \<Rightarrow> (error + 'a) \<times> 'b \<times> event list \<Rightarrow> (error + 'a) \<times> 'b \<times> event list" where
  "prepend evs out = (case out of (r, b, evs') \<Rightarrow> (r, b, evs @ evs'))"

definition bind :: "('a, 'b) io \<Rightarrow> ('a \<Rightarrow> ('c, 'b) io) \<Rightarrow> ('c, 'b) io" where
  "bind m f b =
     (case m b of
        None \<Rightarrow> None
      | Some (Inl e, b1, evs) \<Rightarrow> Some (Inl e, b1, evs)
      | Some (Inr x, b1, evs) \<Rightarrow> map_option (prepend evs) (f x b1))"

text \<open>
  \<^verbatim>\<open>requests.get\<close> and \<^verbatim>\<open>requests.post\<close> on a well-formed URL: one exchange with the
  backend.
\<close>

definition send :: "'b backend \<Rightarrow> request \<Rightarrow> (response, 'b) io" where
  "send serve rq b =
     (case serve b rq of
        (None, b1) \<Rightarrow> Some (Inl RequestException, b1, [Http rq])
      | (Some r, b1) \<Rightarrow> Some (Inr r, b1, [Http rq]))"

section \<open>The Python operations used\<close>

text \<open>\<^verbatim>\<open>Response.raise_for_status\<close>: an error for every 4xx and 5xx code.\<close>

definition raise_for_status :: "response \<Rightarrow> error + unit" where
  "raise_for_status r =
     (if 400 \<le> status_code r \<and> status_code r < 600 then Inl (HTTPError (status_code r))
      else Inr ())"

text \<open>\<^verbatim>\<open>Response.json\<close>.\<close>

definition response_json :: "response \<Rightarrow> error + json" where
  "response_json r = (case json_body r of None \<Rightarrow> Inl JSONDecodeError | Some j \<Rightarrow> Inr j)"

text \<open>\<^verbatim>\<open>d.get(k, default)\<close>: only a dict has the method.\<close>

definition dict_get :: "json \<Rightarrow> string \<Rightarrow> json \<Rightarrow> error + json" where
  "dict_get d k dflt =
     (case d of
        JObj kvs \<Rightarrow> Inr (case map_of kvs k of None \<Rightarrow> dflt | Some v \<Rightarrow> v)
      | _ \<Rightarrow> Inl AttributeError)"

text \<open>\<^verbatim>\<open>d[k]\<close> with a string key.\<close>

definition getitem_key :: "json \<Rightarrow> string \<Rightarrow> error + json" where
  "getitem_key d k =
     (case d of
        JObj kvs \<Rightarrow> (case map_of kvs k of None \<Rightarrow> Inl KeyError | Some v \<Rightarrow> Inr v)
      | _ \<Rightarrow> Inl TypeError)"

text \<open>
  \<^verbatim>\<open>x[0]\<close>. A dict decoded from JSON has string keys only, so the key \<open>0\<close> is
  missing from it; a string gives its first character.
\<close>

definition getitem_0 :: "json \<Rightarrow> error + json" where
  "getitem_0 x =
     (case x of
        JArr [] \<Rightarrow> Inl IndexError
      | JArr (v # _) \<Rightarrow> Inr v
      | JStr [] \<Rightarrow> Inl IndexError
      | JStr (c # _) \<Rightarrow> Inr (JStr [c])
      | JObj _ \<Rightarrow> Inl KeyError
      | _ \<Rightarrow> Inl TypeError)"

text \<open>Truth value, as \<^verbatim>\<open>not x\<close> tests it.\<close>

definition truthy :: "json \<Rightarrow> bool" where
  "truthy x =
     (case x of
        JNull \<Rightarrow> False
      | JBool t \<Rightarrow> t
      | JInt i \<Rightarrow> i \<noteq> 0
      | JFloat r \<Rightarrow> r \<noteq> 0
      | JStr s \<Rightarrow> s \<noteq> []
      | JArr xs \<Rightarrow> xs \<noteq> []
      | JObj kvs \<Rightarrow> kvs \<noteq> [])"

section \<open>The job poller\<close>

text \<open>
  One pass through the body of the \<^verbatim>\<open>while True\<close> loop of \<^verbatim>\<open>poll_job_status\<close>
  (lines 30 to 46). It ends the loop with a return or a raise, or asks for the next pass.
\<close>

datatype 'a pass = Return 'a | Continue

definition poll_pass :: "'b backend \<Rightarrow> json \<Rightarrow> (json pass, 'b) io" where
  "poll_pass serve job_id =
     bind (send serve (Get_job job_id)) (\<lambda>status_response.
     bind (lift (raise_for_status status_response)) (\<lambda>_.
     bind (lift (response_json status_response)) (\<lambda>job_data.
     bind (lift (dict_get job_data ''status'' JNull)) (\<lambda>status.
       if status = JStr ''success'' then
         bind (print ''Job completed successfully.'' []) (\<lambda>_. ret (Return job_data))
       else if status = JStr ''failure'' then
         bind (lift (dict_get job_data ''error'' JNull)) (\<lambda>err.
         bind (print ''Job failed:'' [err]) (\<lambda>_.
         raise (Exception ''Scenario.gg job failed.'')))
       else
         bind (lift (dict_get job_data ''progress'' (JInt 0))) (\<lambda>progress.
         bind (print ''Job status: {status}, progress: {progress}%'' [status, progress]) (\<lambda>_.
         bind (sleep 5) (\<lambda>_. ret Continue)))))))"

partial_function (option) poll_job_status ::
  "'b backend \<Rightarrow> json \<Rightarrow> 'b \<Rightarrow> ((error + json) \<times> 'b \<times> event list) option" where
  "poll_job_status serve job_id b =
     (case poll_pass serve job_id b of
        None \<Rightarrow> None
      | Some (Inl e, b1, evs) \<Rightarrow> Some (Inl e, b1, evs)
      | Some (Inr (Return job_data), b1, evs) \<Rightarrow> Some (Inr job_data, b1, evs)
      | Some (Inr Continue, b1, evs) \<Rightarrow>
          Option.bind (poll_job_status serve job_id b1) (\<lambda>out. Some (prepend evs out)))"

section \<open>The sprite pipeline\<close>

text \<open>
  The parameters of \<^verbatim>\<open>generate_img2img_sprite_sheet\<close>, under their names and
  annotated types. The source's defaults are strength 0.75, one sample, guidance 3.5
  and 28 inference steps.
\<close>

record sprite_args =
  prompt :: string
  image_asset_id :: string
  model_id :: string
  output_filename :: string
  strength :: real
  num_samples :: int
  guidance :: real
  num_inference_steps :: int

text \<open>
  The local files: the contents of each path that exists, which paths
  \<^verbatim>\<open>open(path, "wb")\<close> can open, and how many bytes can be written to a path before
  the write fails.
\<close>

record filesystem =
  files :: "string \<rightharpoonup> bytes"
  writable :: "string \<Rightarrow> bool"
  space :: "string \<Rightarrow> nat"

text \<open>Lines 59 to 86: the POST of the generation request and the job identifier in its answer.\<close>

definition img2img_payload :: "sprite_args \<Rightarrow> json" where
  "img2img_payload a =
     JObj [(''prompt'', JStr (prompt a)),
           (''imageId'', JStr (image_asset_id a)),
           (''strength'', JFloat (strength a)),
           (''numSamples'', JInt (num_samples a)),
           (''guidance'', JFloat (guidance a)),
           (''numInferenceSteps'', JInt (num_inference_steps a)),
           (''modelId'', JStr (model_id a))]"

definition submit_img2img :: "'b backend \<Rightarrow> sprite_args \<Rightarrow> (json, 'b) io" where
  "submit_img2img serve a =
     bind (print ''Generating sprite sheet for: {prompt}'' [JStr (prompt a)]) (\<lambda>_.
     bind (send serve (Post_img2img (img2img_payload a))) (\<lambda>response.
       case raise_for_status response of
         Inl e \<Rightarrow>
           bind (print ''HTTP Error during img2img generation: {e}'' [JInt (int (status_code response))]) (\<lambda>_.
           bind (print ''Response content: {response.text}'' [JStr (content response)]) (\<lambda>_.
           raise e))
       | Inr _ \<Rightarrow>
           bind (lift (response_json response)) (\<lambda>response_json.
             case getitem_key response_json ''jobId'' of
               Inl e \<Rightarrow>
                 if e = KeyError then
                   bind (print ''KeyError: 'jobId' not found in response. Full response: {response.json()}''
                           [response_json]) (\<lambda>_.
                   raise (Exception ''Failed to get jobId from img2img response.''))
                 else raise e
             | Inr job_id \<Rightarrow>
                 bind (print ''Generation job started. Job ID: {job_id}'' [job_id]) (\<lambda>_.
                 ret job_id))))"

text \<open>Lines 89 to 94: the asset identifier in the result of the generation job.\<close>

definition extract_asset_id :: "json \<Rightarrow> (json, 'b) io" where
  "extract_asset_id job_result =
     bind (lift (dict_get job_result ''outputs'' (JArr []))) (\<lambda>outputs.
       if \<not> truthy outputs then raise (Exception ''No outputs found for generation job.'')
       else
         bind (lift (getitem_0 outputs)) (\<lambda>output.
         bind (lift (dict_get output ''assetIds'' JNull)) (\<lambda>asset_ids.
         bind (lift (getitem_0 asset_ids)) (\<lambda>generated_asset_id.
         bind (print ''Generated image asset ID: {generated_asset_id}'' [generated_asset_id]) (\<lambda>_.
         ret generated_asset_id)))))"

text \<open>
  Lines 59 to 94 together are the generation step: submit, poll, extract.
  \<open>await_img2img\<close> is its part up to the return of the poller on line 88.
\<close>

definition await_img2img :: "'b backend \<Rightarrow> sprite_args \<Rightarrow> (json, 'b) io" where
  "await_img2img serve a = bind (submit_img2img serve a) (poll_job_status serve)"

definition generation_step :: "'b backend \<Rightarrow> sprite_args \<Rightarrow> (json, 'b) io" where
  "generation_step serve a = bind (await_img2img serve a) extract_asset_id"

text \<open>Lines 97 to 109: the POST of the background removal and its job identifier.\<close>

definition submit_remove_background :: "'b backend \<Rightarrow> json \<Rightarrow> (json, 'b) io" where
  "submit_remove_background serve generated_asset_id =
     bind (print ''Removing background...'' []) (\<lambda>_.
     bind (send serve (Post_remove_background
             (JObj [(''assetId'', generated_asset_id), (''outputFormat'', JStr ''png'')]))) (\<lambda>response.
     bind (lift (raise_for_status response)) (\<lambda>_.
     bind (lift (response_json response)) (\<lambda>body.
     bind (lift (getitem_key body ''jobId'')) (\<lambda>remove_bg_job_id.
     bind (print ''Background removal job started. Job ID: {remove_bg_job_id}'' [remove_bg_job_id]) (\<lambda>_.
     ret remove_bg_job_id))))))"

text \<open>
  Line 120: what \<^verbatim>\<open>requests.get\<close> does with its argument before it sends anything. A
  text is a list of characters with codes below 256. The library strips leading
  white space, and goes on to the network only for a text that begins, in any case of
  letters, with \<^verbatim>\<open>http://\<close> or \<^verbatim>\<open>https://\<close> and whose authority (the part up to the
  first of \<^verbatim>\<open>/ ? #\<close> and the backslash) has a host: something after the last \<^verbatim>\<open>@\<close>
  and before a colon. Every other text is refused with \<^verbatim>\<open>MissingSchema\<close>,
  \<^verbatim>\<open>InvalidSchema\<close> or \<^verbatim>\<open>InvalidURL\<close>: \<open>URLRefused\<close>.
\<close>

definition is_space :: "char \<Rightarrow> bool" where
  "is_space c \<longleftrightarrow>
     c \<in> set [CHR 0x09, CHR 0x0A, CHR 0x0B, CHR 0x0C, CHR 0x0D, CHR 0x1C, CHR 0x1D, CHR 0x1E,
                CHR 0x1F, CHR 0x20, CHR 0x85, CHR 0xA0]"

definition lower :: "char \<Rightarrow> char" where
  "lower c =
     (case map_of (zip ''ABCDEFGHIJKLMNOPQRSTUVWXYZ'' ''abcdefghijklmnopqrstuvwxyz'') c of
        None \<Rightarrow> c
      | Some d \<Rightarrow> d)"

definition starts_with :: "string \<Rightarrow> string \<Rightarrow> bool" where
  "starts_with prefix s \<longleftrightarrow> map lower (take (length prefix) s) = prefix"

definition has_host :: "string \<Rightarrow> bool" where
  "has_host after_scheme =
     (let authority = takeWhile (\<lambda>c. c \<notin> set [CHR ''/'', CHR ''?'', CHR ''#'', CHR 0x5C]) after_scheme;
          host_port = rev (takeWhile (\<lambda>c. c \<noteq> CHR ''@'') (rev authority))
      in case host_port of [] \<Rightarrow> False | c # _ \<Rightarrow> c \<noteq> CHR '':'')"

definition http_url :: "string \<Rightarrow> bool" where
  "http_url u =
     (let t = dropWhile is_space u
      in (starts_with ''http://'' t \<and> has_host (drop 7 t)) \<or>
         (starts_with ''https://'' t \<and> has_host (drop 8 t)))"

text \<open>
  \<^verbatim>\<open>requests.get\<close>. A URL that is not a string is formatted with \<^verbatim>\<open>str\<close>: the text
  of \<^verbatim>\<open>None\<close>, of a number and of a boolean has no scheme and raises
  \<^verbatim>\<open>MissingSchema\<close>; the text of a list or a dict begins with a bracket and is refused
  too. A string that is an HTTP URL in the sense above goes to the backend, whose
  \<open>None\<close> stands for the library's remaining checks of the host and the port as well
  as for a failed connection.
\<close>

definition requests_get :: "'b backend \<Rightarrow> json \<Rightarrow> (response, 'b) io" where
  "requests_get serve url =
     (case url of
        JStr u \<Rightarrow> if http_url u then send serve (Get_url u) else raise URLRefused
      | JArr _ \<Rightarrow> raise URLRefused
      | JObj _ \<Rightarrow> raise URLRefused
      | _ \<Rightarrow> raise MissingSchema)"

text \<open>Lines 120 and 121: the download.\<close>

definition download :: "'b backend \<Rightarrow> json \<Rightarrow> (response, 'b) io" where
  "download serve final_image_url =
     bind (requests_get serve final_image_url) (\<lambda>image_response.
     bind (lift (raise_for_status image_response)) (\<lambda>_.
     ret image_response))"

text \<open>
  Lines 112 to 121: from the result of the background-removal job to the downloaded
  image. The URL read on line 116 is printed and handed to the download as it is.
\<close>

definition fetch_final_image :: "'b backend \<Rightarrow> json \<Rightarrow> (response, 'b) io" where
  "fetch_final_image serve remove_bg_job_result =
     bind (lift (dict_get remove_bg_job_result ''outputs'' (JArr []))) (\<lambda>remove_bg_outputs.
       if \<not> truthy remove_bg_outputs then
         raise (Exception ''No outputs found for background removal job.'')
       else
         bind (lift (getitem_0 remove_bg_outputs)) (\<lambda>output.
         bind (lift (dict_get output ''url'' JNull)) (\<lambda>final_image_url.
         bind (print ''Final image URL: {final_image_url}'' [final_image_url]) (\<lambda>_.
         download serve final_image_url))))"

text \<open>
  Lines 97 to 121 together are the background-removal step and the download.
  \<open>await_remove_background\<close> is its part up to the return of the poller on line 111.
\<close>

definition await_remove_background :: "'b backend \<Rightarrow> json \<Rightarrow> (json, 'b) io" where
  "await_remove_background serve generated_asset_id =
     bind (submit_remove_background serve generated_asset_id) (poll_job_status serve)"

definition remove_background_step :: "'b backend \<Rightarrow> json \<Rightarrow> (response, 'b) io" where
  "remove_background_step serve generated_asset_id =
     bind (await_remove_background serve generated_asset_id) (fetch_final_image serve)"

text \<open>Lines 59 to 121: everything before the file is opened.\<close>

definition remote_steps :: "'b backend \<Rightarrow> sprite_args \<Rightarrow> (response, 'b) io" where
  "remote_steps serve a = bind (generation_step serve a) (remove_background_step serve)"

text \<open>
  The whole function. Line 122 opens the file, which fails or leaves the file empty;
  line 123 writes the body of the last response, and when the path has no room for all
  of it the write fails and the file keeps the part that fitted; line 124 prints. The
  function has no \<^verbatim>\<open>return\<close>, so a call that gets to its end gives \<^verbatim>\<open>None\<close>.
\<close>

definition generate_img2img_sprite_sheet ::
  "'b backend \<Rightarrow> sprite_args \<Rightarrow> 'b \<Rightarrow> filesystem \<Rightarrow>
     ((error + json) \<times> 'b \<times> filesystem \<times> event list) option" where
  "generate_img2img_sprite_sheet serve a b fs =
     (case remote_steps serve a b of
        None \<Rightarrow> None
      | Some (Inl e, b1, evs) \<Rightarrow> Some (Inl e, b1, fs, evs)
      | Some (Inr image_response, b1, evs) \<Rightarrow>
          if \<not> writable fs (output_filename a) then
            Some (Inl OSError, b1, fs, evs @ [Open (output_filename a)])
          else if length (content image_response) \<le> space fs (output_filename a) then
            Some (Inr JNull, b1,
                  fs\<lparr>files := (files fs)(output_filename a \<mapsto> content image_response)\<rparr>,
                  evs @ [Open (output_filename a),
                         Print ''Sprite sheet saved to {output_filename}'' [JStr (output_filename a)]])
          else
            Some (Inl OSError, b1,
                  fs\<lparr>files := (files fs)(output_filename a \<mapsto>
                              take (space fs (output_filename a)) (content image_response))\<rparr>,
                  evs @ [Open (output_filename a)]))"

section \<open>A scripted backend\<close>

text \<open>
  A backend that answers the requests it gets with the responses of a list, in order,
  whatever the request, and fails the call once the list is used up.
\<close>

definition replay :: "response list backend" where
  "replay rs rq = (case rs of [] \<Rightarrow> (None, []) | r # rs' \<Rightarrow> (Some r, rs'))"

definition ok_json :: "json \<Rightarrow> response" where
  "ok_json j = \<lparr>status_code = 200, json_body = Some j, content = []\<rparr>"

definition ok_bytes :: "bytes \<Rightarrow> response" where
  "ok_bytes c = \<lparr>status_code = 200, json_body = None, content = c\<rparr>"

text \<open>
  The first call of the script (lines 148 to 153), with the defaults of the function
  and the output path relative to the directory of the script, and a file system in
  which every path can be opened and has room for a thousand bytes, and that path
  holds an older file.
\<close>

definition male_warrior :: sprite_args where
  "male_warrior =
     \<lparr>prompt = ''8-bit RPG male warrior character sprite sheet, with a large sword and shield'',
      image_asset_id = ''asset_aNYJezDQZUtkkikLrnhEkshs'',
      model_id = ''model_p1dBcEaYQ5jUjB2brcf8bb1W'',
      output_filename = ''generated/male_warrior_scenario.png'',
      strength = 0.75,
      num_samples = 1,
      guidance = 3.5,
      num_inference_steps = 28\<rparr>"

definition disk :: filesystem where
  "disk = \<lparr>files = [''generated/male_warrior_scenario.png'' \<mapsto> ''OLD''],
           writable = (\<lambda>_. True),
           space = (\<lambda>_. 1000)\<rparr>"

section \<open>What the poller reads in a response\<close>

text \<open>
  \<open>status_of\<close> is the value the poller compares on lines 38 and 41: what
  \<^verbatim>\<open>job_data.get("status")\<close> gives for a response that passes \<^verbatim>\<open>raise_for_status\<close>
  and whose body is a JSON object, and \<open>None\<close> for a response on which lines 34 to
  36 raise. A response is in progress when that value is neither of the two strings the
  poller stops on. \<open>body_get\<close> reads a field of the body with a default, and
  \<open>waiting_events\<close> are the effects of one pass of the loop through its last branch.
\<close>

definition status_of :: "response \<Rightarrow> json option" where
  "status_of r =
     (case raise_for_status r of
        Inl _ \<Rightarrow> None
      | Inr _ \<Rightarrow>
          (case json_body r of
             Some (JObj kvs) \<Rightarrow> Some (case map_of kvs ''status'' of None \<Rightarrow> JNull | Some v \<Rightarrow> v)
           | _ \<Rightarrow> None))"

definition in_progress :: "response \<Rightarrow> bool" where
  "in_progress r =
     (case status_of r of
        None \<Rightarrow> False
      | Some s \<Rightarrow> s \<noteq> JStr ''success'' \<and> s \<noteq> JStr ''failure'')"

definition body_get :: "response \<Rightarrow> string \<Rightarrow> json \<Rightarrow> json" where
  "body_get r k dflt =
     (case json_body r of
        Some (JObj kvs) \<Rightarrow> (case map_of kvs k of None \<Rightarrow> dflt | Some v \<Rightarrow> v)
      | _ \<Rightarrow> dflt)"

definition waiting_events :: "json \<Rightarrow> response \<Rightarrow> event list" where
  "waiting_events job_id r =
     [Http (Get_job job_id),
      Print ''Job status: {status}, progress: {progress}%''
        [body_get r ''status'' JNull, body_get r ''progress'' (JInt 0)],
      Sleep 5]"

definition lacks_status :: "response \<Rightarrow> bool" where
  "lacks_status r =
     (case raise_for_status r of
        Inl _ \<Rightarrow> False
      | Inr _ \<Rightarrow>
          (case json_body r of
             Some (JObj kvs) \<Rightarrow> map_of kvs ''status'' = None
           | _ \<Rightarrow> False))"

text \<open>
  What the pipeline reads in the other responses. \<open>job_id_of\<close> is the job identifier
  that lines 76 to 78 and 107 to 108 get from the answer to a POST, \<open>asset_of\<close> the
  asset identifier that lines 89 to 93 get from the body of a job result and
  \<open>url_of\<close> the value that lines 112 to 116 get from it; each is \<open>None\<close> where
  those lines raise. \<open>remote_steps_succeed\<close> says of the answers to the two POSTs, the
  status responses before the end of each job, the two final status responses and the
  answer to the last GET that no line up to 121 raises on them.
\<close>

definition job_id_of :: "response \<Rightarrow> json option" where
  "job_id_of r =
     (case raise_for_status r of
        Inl _ \<Rightarrow> None
      | Inr _ \<Rightarrow>
          (case json_body r of
             Some (JObj kvs) \<Rightarrow> map_of kvs ''jobId''
           | _ \<Rightarrow> None))"

definition first_output :: "response \<Rightarrow> json option" where
  "first_output r =
     (case json_body r of
        Some (JObj kvs) \<Rightarrow>
          (let outputs = (case map_of kvs ''outputs'' of None \<Rightarrow> JArr [] | Some v \<Rightarrow> v)
           in if truthy outputs then
                (case getitem_0 outputs of Inl _ \<Rightarrow> None | Inr out \<Rightarrow> Some out)
              else None)
      | _ \<Rightarrow> None)"

definition asset_of :: "response \<Rightarrow> json option" where
  "asset_of r =
     (case first_output r of
        None \<Rightarrow> None
      | Some out \<Rightarrow>
          (case dict_get out ''assetIds'' JNull of
             Inl _ \<Rightarrow> None
           | Inr ids \<Rightarrow> (case getitem_0 ids of Inl _ \<Rightarrow> None | Inr x \<Rightarrow> Some x)))"

definition url_of :: "response \<Rightarrow> json option" where
  "url_of r =
     (case first_output r of
        None \<Rightarrow> None
      | Some out \<Rightarrow> (case dict_get out ''url'' JNull of Inl _ \<Rightarrow> None | Inr u \<Rightarrow> Some u))"

definition remote_steps_succeed ::
  "response \<Rightarrow> response list \<Rightarrow> response \<Rightarrow> response \<Rightarrow> response list \<Rightarrow> response \<Rightarrow>
     response \<Rightarrow> bool" where
  "remote_steps_succeed p1 pre1 s1 p2 pre2 s2 img \<longleftrightarrow>
     job_id_of p1 \<noteq> None \<and> list_all in_progress pre1 \<and>
     status_of s1 = Some (JStr ''success'') \<and> asset_of s1 \<noteq> None \<and>
     job_id_of p2 \<noteq> None \<and> list_all in_progress pre2 \<and>
     status_of s2 = Some (JStr ''success'') \<and>
     (case url_of s2 of Some (JStr u) \<Rightarrow> http_url u | _ \<Rightarrow> False) \<and>
     raise_for_status img = Inr ()"

section \<open>One pass of the loop, and the loop\<close>

lemmas io_defs = bind_def ret_def raise_def lift_def print_def sleep_def send_def prepend_def

lemma status_ofD:
  "status_of r = Some s \<Longrightarrow>
     \<exists>kvs. raise_for_status r = Inr () \<and> json_body r = Some (JObj kvs) \<and>
       (case map_of kvs ''status'' of None \<Rightarrow> JNull | Some v \<Rightarrow> v) = s"
  by (auto simp: status_of_def split: sum.splits option.splits json.splits)

lemma poll_pass_success:
  assumes "serve b (Get_job job_id) = (Some r, b1)" and "status_of r = Some (JStr ''success'')"
  shows "poll_pass serve job_id b =
           Some (Inr (Return (the (json_body r))), b1,
                 [Http (Get_job job_id), Print ''Job completed successfully.'' []])"
proof -
  from status_ofD [OF assms(2)] obtain kvs where
    "raise_for_status r = Inr ()" "json_body r = Some (JObj kvs)"
    "(case map_of kvs ''status'' of None \<Rightarrow> JNull | Some v \<Rightarrow> v) = JStr ''success''"
    by blast
  with assms(1) show ?thesis
    by (simp add: poll_pass_def io_defs response_json_def dict_get_def)
qed

lemma poll_pass_failure:
  assumes "serve b (Get_job job_id) = (Some r, b1)" and "status_of r = Some (JStr ''failure'')"
  shows "poll_pass serve job_id b =
           Some (Inl (Exception ''Scenario.gg job failed.''), b1,
                 [Http (Get_job job_id), Print ''Job failed:'' [body_get r ''error'' JNull]])"
proof -
  from status_ofD [OF assms(2)] obtain kvs where
    "raise_for_status r = Inr ()" "json_body r = Some (JObj kvs)"
    "(case map_of kvs ''status'' of None \<Rightarrow> JNull | Some v \<Rightarrow> v) = JStr ''failure''"
    by blast
  with assms(1) show ?thesis
    by (simp add: poll_pass_def io_defs response_json_def dict_get_def body_get_def)
qed

lemma poll_pass_in_progress:
  assumes "serve b (Get_job job_id) = (Some r, b1)" and "in_progress r"
  shows "poll_pass serve job_id b = Some (Inr Continue, b1, waiting_events job_id r)"
proof -
  from assms(2) obtain s where s: "status_of r = Some s" "s \<noteq> JStr ''success''" "s \<noteq> JStr ''failure''"
    by (auto simp: in_progress_def split: option.splits)
  from status_ofD [OF s(1)] obtain kvs where
    "raise_for_status r = Inr ()" "json_body r = Some (JObj kvs)"
    "(case map_of kvs ''status'' of None \<Rightarrow> JNull | Some v \<Rightarrow> v) = s"
    by blast
  with assms(1) s(2,3) show ?thesis
    by (simp add: poll_pass_def io_defs response_json_def dict_get_def body_get_def waiting_events_def)
qed

lemma poll_pass_unreadable:
  assumes "serve b (Get_job job_id) = (Some r, b1)" and "status_of r = None"
  shows "\<exists>e. poll_pass serve job_id b = Some (Inl e, b1, [Http (Get_job job_id)])"
  using assms
  by (auto simp: poll_pass_def io_defs response_json_def dict_get_def status_of_def
           split: sum.splits option.splits json.splits)

lemma poll_pass_no_response:
  assumes "serve b (Get_job job_id) = (None, b1)"
  shows "poll_pass serve job_id b = Some (Inl RequestException, b1, [Http (Get_job job_id)])"
  using assms by (simp add: poll_pass_def io_defs)


lemma poll_success:
  assumes "serve b (Get_job job_id) = (Some r, b1)" and "status_of r = Some (JStr ''success'')"
  shows "poll_job_status serve job_id b =
           Some (Inr (the (json_body r)), b1,
                 [Http (Get_job job_id), Print ''Job completed successfully.'' []])"
  by (subst poll_job_status.simps) (simp add: poll_pass_success [where serve = serve and b = b, OF assms])

lemma poll_failure:
  assumes "serve b (Get_job job_id) = (Some r, b1)" and "status_of r = Some (JStr ''failure'')"
  shows "poll_job_status serve job_id b =
           Some (Inl (Exception ''Scenario.gg job failed.''), b1,
                 [Http (Get_job job_id), Print ''Job failed:'' [body_get r ''error'' JNull]])"
  by (subst poll_job_status.simps) (simp add: poll_pass_failure [where serve = serve and b = b, OF assms])

lemma poll_in_progress:
  assumes "serve b (Get_job job_id) = (Some r, b1)" and "in_progress r"
  shows "poll_job_status serve job_id b =
           Option.bind (poll_job_status serve job_id b1)
             (\<lambda>out. Some (prepend (waiting_events job_id r) out))"
  by (subst poll_job_status.simps) (simp add: poll_pass_in_progress [where serve = serve and b = b, OF assms])

lemma poll_unreadable:
  assumes "serve b (Get_job job_id) = (Some r, b1)" and "status_of r = None"
  shows "\<exists>e. poll_job_status serve job_id b = Some (Inl e, b1, [Http (Get_job job_id)])"
proof -
  from poll_pass_unreadable [where serve = serve and b = b, OF assms] obtain e where
    "poll_pass serve job_id b = Some (Inl e, b1, [Http (Get_job job_id)])" ..
  then have "poll_job_status serve job_id b = Some (Inl e, b1, [Http (Get_job job_id)])"
    by (subst poll_job_status.simps) simp
  then show ?thesis ..
qed

lemma poll_no_response:
  assumes "serve b (Get_job job_id) = (None, b1)"
  shows "poll_job_status serve job_id b = Some (Inl RequestException, b1, [Http (Get_job job_id)])"
  by (subst poll_job_status.simps) (simp add: poll_pass_no_response [where serve = serve and b = b, OF assms])

lemma replay_Cons: "replay (r # rs) rq = (Some r, rs)"
  by (simp add: replay_def)

lemma replay_Nil: "replay [] rq = (None, [])"
  by (simp add: replay_def)

lemma poll_replay_skip:
  "list_all in_progress pre \<Longrightarrow>
     poll_job_status replay job_id (pre @ rs) =
       Option.bind (poll_job_status replay job_id rs)
         (\<lambda>out. Some (prepend (concat (map (waiting_events job_id) pre)) out))"
proof (induction pre)
  case Nil
  show ?case by (cases "poll_job_status replay job_id rs") (auto simp: prepend_def)
next
  case (Cons r pre)
  then have r: "in_progress r" and pre: "list_all in_progress pre" by simp_all
  have "poll_job_status replay job_id ((r # pre) @ rs) =
          Option.bind (poll_job_status replay job_id (pre @ rs))
            (\<lambda>out. Some (prepend (waiting_events job_id r) out))"
    using poll_in_progress [where serve = replay and b = "r # pre @ rs", OF replay_Cons r] by simp
  also have "\<dots> = Option.bind (poll_job_status replay job_id rs)
         (\<lambda>out. Some (prepend (concat (map (waiting_events job_id) (r # pre))) out))"
    by (cases "poll_job_status replay job_id rs") (auto simp: Cons.IH [OF pre] prepend_def)
  finally show ?case .
qed

lemma status_cases:
  obtains (unreadable) "status_of r = None"
  | (success) "status_of r = Some (JStr ''success'')"
  | (failure) "status_of r = Some (JStr ''failure'')"
  | (waiting) "in_progress r"
  by (cases "status_of r") (auto simp: in_progress_def)

lemma poll_replay_returnD:
  "poll_job_status replay job_id rs = Some (Inr payload, rest, evs) \<Longrightarrow>
     \<exists>pre r. rs = pre @ r # rest \<and> list_all in_progress pre \<and>
       status_of r = Some (JStr ''success'') \<and> json_body r = Some payload \<and>
       evs = concat (map (waiting_events job_id) pre) @
               [Http (Get_job job_id), Print ''Job completed successfully.'' []]"
proof (induction rs arbitrary: evs)
  case Nil
  then show ?case using poll_no_response [where serve = replay and b = "[]", OF replay_Nil, of job_id] by simp
next
  case (Cons r rs)
  show ?case
  proof (cases r rule: status_cases)
    case unreadable
    with Cons.prems poll_unreadable [where serve = replay and b = "r # rs", OF replay_Cons unreadable, of job_id] show ?thesis by auto
  next
    case success
    from status_ofD [OF success] obtain kvs where "json_body r = Some (JObj kvs)" by blast
    with Cons.prems success poll_success [where serve = replay and b = "r # rs", OF replay_Cons success, of job_id]
    have "r # rs = [] @ r # rest \<and> list_all in_progress [] \<and>
       status_of r = Some (JStr ''success'') \<and> json_body r = Some payload \<and>
       evs = concat (map (waiting_events job_id) []) @
               [Http (Get_job job_id), Print ''Job completed successfully.'' []]"
      by simp
    then show ?thesis by blast
  next
    case failure
    with Cons.prems poll_failure [where serve = replay and b = "r # rs", OF replay_Cons failure, of job_id] show ?thesis by simp
  next
    case waiting
    from Cons.prems poll_in_progress [where serve = replay and b = "r # rs", OF replay_Cons waiting, of job_id]
    obtain evs' where rec: "poll_job_status replay job_id rs = Some (Inr payload, rest, evs')"
      and evs: "evs = waiting_events job_id r @ evs'"
      by (cases "poll_job_status replay job_id rs") (auto simp: prepend_def)
    from Cons.IH [OF rec] obtain pre r' where
      "rs = pre @ r' # rest" "list_all in_progress pre"
      "status_of r' = Some (JStr ''success'')" "json_body r' = Some payload"
      "evs' = concat (map (waiting_events job_id) pre) @
               [Http (Get_job job_id), Print ''Job completed successfully.'' []]"
      by blast
    with waiting evs have "r # rs = (r # pre) @ r' # rest \<and> list_all in_progress (r # pre) \<and>
       status_of r' = Some (JStr ''success'') \<and> json_body r' = Some payload \<and>
       evs = concat (map (waiting_events job_id) (r # pre)) @
               [Http (Get_job job_id), Print ''Job completed successfully.'' []]"
      by simp
    then show ?thesis by blast
  qed
qed

lemma poll_diverges:
  assumes never: "\<forall>b. \<exists>r b1. serve b (Get_job job_id) = (Some r, b1) \<and> in_progress r"
  shows "poll_job_status serve job_id b = None"
proof (rule ccontr)
  assume "poll_job_status serve job_id b \<noteq> None"
  then obtain y where y: "poll_job_status serve job_id b = Some y" by auto
  have "\<not> (\<forall>b. \<exists>r b1. serve b (Get_job job_id) = (Some r, b1) \<and> in_progress r)"
  proof (rule poll_job_status.raw_induct
      [where P = "\<lambda>serve job_id b y. \<not> (\<forall>b. \<exists>r b1. serve b (Get_job job_id) = (Some r, b1) \<and> in_progress r)"
         and serve = serve and job_id = job_id and b = b and y = y])
    fix poll :: "'a backend \<Rightarrow> json \<Rightarrow> 'a \<Rightarrow> ((error + json) \<times> 'a \<times> event list) option"
    fix serve job_id b y
    assume IH: "\<And>serve job_id b y. poll serve job_id b = Some y \<Longrightarrow>
       \<not> (\<forall>b. \<exists>r b1. serve b (Get_job job_id) = (Some r, b1) \<and> in_progress r)"
    assume step: "(case poll_pass serve job_id b of
        None \<Rightarrow> None
      | Some (Inl e, b1, evs) \<Rightarrow> Some (Inl e, b1, evs)
      | Some (Inr (Return job_data), b1, evs) \<Rightarrow> Some (Inr job_data, b1, evs)
      | Some (Inr Continue, b1, evs) \<Rightarrow>
          Option.bind (poll serve job_id b1) (\<lambda>out. Some (prepend evs out))) = Some y"
    show "\<not> (\<forall>b. \<exists>r b1. serve b (Get_job job_id) = (Some r, b1) \<and> in_progress r)"
    proof
      assume all: "\<forall>b. \<exists>r b1. serve b (Get_job job_id) = (Some r, b1) \<and> in_progress r"
      then obtain r b1 where r: "serve b (Get_job job_id) = (Some r, b1)" "in_progress r" by blast
      from step poll_pass_in_progress [where serve = serve and b = b, OF r]
      obtain y' where "poll serve job_id b1 = Some y'"
        by (cases "poll serve job_id b1") auto
      from IH [OF this] all show False by blast
    qed
  next
    show "poll_job_status serve job_id b = Some y" by (rule y)
  qed
  with never show False by blast
qed


lemma lacks_status_in_progress:
  "lacks_status r \<Longrightarrow> in_progress r \<and> body_get r ''status'' JNull = JNull"
  by (auto simp: lacks_status_def in_progress_def status_of_def body_get_def
           split: sum.splits option.splits json.splits)

lemmas response_eval = ok_json_def ok_bytes_def status_of_def in_progress_def lacks_status_def
  body_get_def waiting_events_def raise_for_status_def

section \<open>Properties of the poller\<close>

text \<open>
  C1. For every job identifier and every sequence of status responses, the poller
  returns only after a terminal status: when it returns a payload, the responses it
  consumed are a run of in-progress responses followed by one whose status is the
  success status (the string \<^verbatim>\<open>"success"\<close> in the source), the payload is the whole
  body of that response, the responses after it are left unconsumed, and the effects
  end with that query. Conversely, after any run of in-progress responses a success
  response makes it return that body at once.
\<close>

theorem poll_returns_only_on_success:
  "(poll_job_status replay job_id rs = Some (Inr payload, rest, evs) \<longrightarrow>
      (\<exists>pre r. rs = pre @ r # rest \<and> list_all in_progress pre \<and>
         status_of r = Some (JStr ''success'') \<and> json_body r = Some payload \<and>
         evs = concat (map (waiting_events job_id) pre) @
                 [Http (Get_job job_id), Print ''Job completed successfully.'' []]))
   \<and> (list_all in_progress pre' \<and> status_of r' = Some (JStr ''success'') \<longrightarrow>
        poll_job_status replay job_id (pre' @ r' # rest') =
          Some (Inr (the (json_body r')), rest',
                concat (map (waiting_events job_id) pre') @
                  [Http (Get_job job_id), Print ''Job completed successfully.'' []]))"
proof (intro conjI impI)
  assume "poll_job_status replay job_id rs = Some (Inr payload, rest, evs)"
  then show "\<exists>pre r. rs = pre @ r # rest \<and> list_all in_progress pre \<and>
         status_of r = Some (JStr ''success'') \<and> json_body r = Some payload \<and>
         evs = concat (map (waiting_events job_id) pre) @
                 [Http (Get_job job_id), Print ''Job completed successfully.'' []]"
    by (rule poll_replay_returnD)
next
  assume a: "list_all in_progress pre' \<and> status_of r' = Some (JStr ''success'')"
  then have "poll_job_status replay job_id (r' # rest') =
      Some (Inr (the (json_body r')), rest',
            [Http (Get_job job_id), Print ''Job completed successfully.'' []])"
    using poll_success [where serve = replay and b = "r' # rest'", OF replay_Cons] by simp
  with a show "poll_job_status replay job_id (pre' @ r' # rest') =
          Some (Inr (the (json_body r')), rest',
                concat (map (waiting_events job_id) pre') @
                  [Http (Get_job job_id), Print ''Job completed successfully.'' []])"
    by (simp add: poll_replay_skip prepend_def)
qed

theorem poll_returns_only_on_success_witness:
  "poll_job_status replay (JStr ''job-1'')
     [ok_json (JObj [(''status'', JStr ''queued'')]),
      ok_json (JObj [(''status'', JStr ''success''), (''outputs'', JArr [])]),
      ok_json (JObj [(''status'', JStr ''failure'')])] =
   Some (Inr (JObj [(''status'', JStr ''success''), (''outputs'', JArr [])]),
         [ok_json (JObj [(''status'', JStr ''failure'')])],
         [Http (Get_job (JStr ''job-1'')),
          Print ''Job status: {status}, progress: {progress}%'' [JStr ''queued'', JInt 0],
          Sleep 5,
          Http (Get_job (JStr ''job-1'')),
          Print ''Job completed successfully.'' []])
   \<and> (\<exists>pre r. [ok_json (JObj [(''status'', JStr ''queued'')]),
                ok_json (JObj [(''status'', JStr ''success''), (''outputs'', JArr [])]),
                ok_json (JObj [(''status'', JStr ''failure'')])] =
                 pre @ r # [ok_json (JObj [(''status'', JStr ''failure'')])] \<and>
               list_all in_progress pre \<and> status_of r = Some (JStr ''success''))"
proof -
  let ?q = "ok_json (JObj [(''status'', JStr ''queued'')])"
  let ?s = "ok_json (JObj [(''status'', JStr ''success''), (''outputs'', JArr [])])"
  let ?f = "ok_json (JObj [(''status'', JStr ''failure'')])"
  let ?evs = "[Http (Get_job (JStr ''job-1'')),
          Print ''Job status: {status}, progress: {progress}%'' [JStr ''queued'', JInt 0],
          Sleep 5,
          Http (Get_job (JStr ''job-1'')),
          Print ''Job completed successfully.'' []]"
  note inst = poll_returns_only_on_success
    [where job_id = "JStr ''job-1''" and rs = "[?q, ?s, ?f]"
       and payload = "JObj [(''status'', JStr ''success''), (''outputs'', JArr [])]"
       and rest = "[?f]" and evs = ?evs and pre' = "[?q]" and r' = ?s and rest' = "[?f]"]
  have hyp: "list_all in_progress [?q] \<and> status_of ?s = Some (JStr ''success'')"
    by (simp add: response_eval)
  from inst hyp have run: "poll_job_status replay (JStr ''job-1'') [?q, ?s, ?f] =
      Some (Inr (JObj [(''status'', JStr ''success''), (''outputs'', JArr [])]), [?f], ?evs)"
    by (simp add: response_eval)
  with inst have "\<exists>pre r. [?q, ?s, ?f] = pre @ r # [?f] \<and> list_all in_progress pre \<and>
      status_of r = Some (JStr ''success'')"
    by blast
  with run show ?thesis by blast
qed

text \<open>
  C2, as the code has it. For every sequence of status responses whose first terminal
  status is the failure status (the string \<^verbatim>\<open>"failure"\<close> in the source), the poller
  raises \<^verbatim>\<open>Exception("Scenario.gg job failed.")\<close>: the message of the exception is
  this fixed text. The error reported by the service is printed, not carried by the
  exception. No status query follows the failed one: the rest of the sequence is left
  unconsumed.
\<close>

theorem poll_raises_fixed_message_on_failure:
  "list_all in_progress pre \<and> status_of r = Some (JStr ''failure'') \<Longrightarrow>
     poll_job_status replay job_id (pre @ r # rest) =
       Some (Inl (Exception ''Scenario.gg job failed.''), rest,
             concat (map (waiting_events job_id) pre) @
               [Http (Get_job job_id), Print ''Job failed:'' [body_get r ''error'' JNull]])"
  by (simp add: poll_replay_skip poll_failure [where serve = replay, OF replay_Cons] prepend_def)

theorem poll_raises_fixed_message_on_failure_witness:
  "poll_job_status replay (JStr ''job-7'')
     [ok_json (JObj [(''status'', JStr ''running''), (''progress'', JInt 40)]),
      ok_json (JObj [(''status'', JStr ''failure''), (''error'', JStr ''bad prompt'')]),
      ok_json (JObj [(''status'', JStr ''success'')])] =
   Some (Inl (Exception ''Scenario.gg job failed.''),
         [ok_json (JObj [(''status'', JStr ''success'')])],
         [Http (Get_job (JStr ''job-7'')),
          Print ''Job status: {status}, progress: {progress}%'' [JStr ''running'', JInt 40],
          Sleep 5,
          Http (Get_job (JStr ''job-7'')),
          Print ''Job failed:'' [JStr ''bad prompt'']])"
  using poll_raises_fixed_message_on_failure
    [where pre = "[ok_json (JObj [(''status'', JStr ''running''), (''progress'', JInt 40)])]"
       and r = "ok_json (JObj [(''status'', JStr ''failure''), (''error'', JStr ''bad prompt'')])"
       and rest = "[ok_json (JObj [(''status'', JStr ''success'')])]"
       and job_id = "JStr ''job-7''"]
  by (simp add: response_eval)

text \<open>
  The exception does not carry the service's message: two failed jobs with different
  error messages end with the same exception value.
\<close>

theorem poll_failure_message_counterexample:
  "poll_job_status replay (JStr ''job-1'')
     [ok_json (JObj [(''status'', JStr ''failure''), (''error'', JStr ''bad prompt'')])] =
   Some (Inl (Exception ''Scenario.gg job failed.''), [],
         [Http (Get_job (JStr ''job-1'')), Print ''Job failed:'' [JStr ''bad prompt'']])
   \<and> poll_job_status replay (JStr ''job-1'')
     [ok_json (JObj [(''status'', JStr ''failure''), (''error'', JStr ''quota exceeded'')])] =
   Some (Inl (Exception ''Scenario.gg job failed.''), [],
         [Http (Get_job (JStr ''job-1'')), Print ''Job failed:'' [JStr ''quota exceeded'']])"
  by (simp add: poll_failure [where serve = replay, OF replay_Cons] response_eval)

text \<open>
  C5. On the status responses running (10%), running (55%), success, the poller
  returns the payload of the third after exactly three status queries, with a
  five-second sleep after the first and after the second query and none before the
  first.
\<close>

theorem poll_three_queries:
  "poll_job_status replay job_id
     (ok_json (JObj [(''status'', JStr ''running''), (''progress'', JInt 10)]) #
      ok_json (JObj [(''status'', JStr ''running''), (''progress'', JInt 55)]) #
      ok_json (JObj [(''status'', JStr ''success''), (''progress'', JInt 100)]) # rest) =
   Some (Inr (JObj [(''status'', JStr ''success''), (''progress'', JInt 100)]), rest,
         [Http (Get_job job_id),
          Print ''Job status: {status}, progress: {progress}%'' [JStr ''running'', JInt 10],
          Sleep 5,
          Http (Get_job job_id),
          Print ''Job status: {status}, progress: {progress}%'' [JStr ''running'', JInt 55],
          Sleep 5,
          Http (Get_job job_id),
          Print ''Job completed successfully.'' []])"
proof -
  let ?a = "ok_json (JObj [(''status'', JStr ''running''), (''progress'', JInt 10)])"
  let ?b = "ok_json (JObj [(''status'', JStr ''running''), (''progress'', JInt 55)])"
  let ?c = "ok_json (JObj [(''status'', JStr ''success''), (''progress'', JInt 100)])"
  have a: "in_progress ?a" and b: "in_progress ?b" and c: "status_of ?c = Some (JStr ''success'')"
    by (simp_all add: response_eval)
  have "poll_job_status replay job_id (?c # rest) =
      Some (Inr (the (json_body ?c)), rest,
            [Http (Get_job job_id), Print ''Job completed successfully.'' []])"
    by (rule poll_success [where serve = replay, OF replay_Cons c])
  then show ?thesis
    by (simp add: poll_in_progress [where serve = replay, OF replay_Cons a]
        poll_in_progress [where serve = replay, OF replay_Cons b] prepend_def)
       (simp add: response_eval)
qed

text \<open>
  C10. A response that passes \<^verbatim>\<open>raise_for_status\<close> and whose JSON object has no
  status field is handled as an in-progress one: the poller prints the status
  \<^verbatim>\<open>None\<close>, sleeps five seconds and polls again. Against a backend that never sends
  a status field the poller does not return.
\<close>

theorem poll_missing_status_keeps_polling:
  "(serve b (Get_job job_id) = (Some r, b1) \<and> lacks_status r \<longrightarrow>
      poll_job_status serve job_id b =
        Option.bind (poll_job_status serve job_id b1)
          (\<lambda>out. Some (prepend
             [Http (Get_job job_id),
              Print ''Job status: {status}, progress: {progress}%''
                [JNull, body_get r ''progress'' (JInt 0)],
              Sleep 5] out)))
   \<and> ((\<forall>s. \<exists>r' s'. serve s (Get_job job_id) = (Some r', s') \<and> lacks_status r') \<longrightarrow>
        poll_job_status serve job_id b = None)"
proof (intro conjI impI)
  assume a: "serve b (Get_job job_id) = (Some r, b1) \<and> lacks_status r"
  then have "in_progress r" and "body_get r ''status'' JNull = JNull"
    using lacks_status_in_progress by blast+
  with a poll_in_progress [where serve = serve and b = b and r = r and ?b1.0 = b1 and job_id = job_id]
  show "poll_job_status serve job_id b =
        Option.bind (poll_job_status serve job_id b1)
          (\<lambda>out. Some (prepend
             [Http (Get_job job_id),
              Print ''Job status: {status}, progress: {progress}%''
                [JNull, body_get r ''progress'' (JInt 0)],
              Sleep 5] out))"
    by (simp add: waiting_events_def)
next
  assume "\<forall>s. \<exists>r' s'. serve s (Get_job job_id) = (Some r', s') \<and> lacks_status r'"
  then have "\<forall>s. \<exists>r' s'. serve s (Get_job job_id) = (Some r', s') \<and> in_progress r'"
    using lacks_status_in_progress by blast
  then show "poll_job_status serve job_id b = None"
    by (rule poll_diverges)
qed

theorem poll_missing_status_keeps_polling_witness:
  "lacks_status (ok_json (JObj [(''progress'', JInt 3)]))
   \<and> poll_job_status (\<lambda>s rq. (Some (ok_json (JObj [(''progress'', JInt 3)])), Suc s))
       (JStr ''job-1'') (0::nat) =
     Option.bind
       (poll_job_status (\<lambda>s rq. (Some (ok_json (JObj [(''progress'', JInt 3)])), Suc s))
          (JStr ''job-1'') (Suc 0))
       (\<lambda>out. Some (prepend
          [Http (Get_job (JStr ''job-1'')),
           Print ''Job status: {status}, progress: {progress}%'' [JNull, JInt 3],
           Sleep 5] out))
   \<and> poll_job_status (\<lambda>s rq. (Some (ok_json (JObj [(''progress'', JInt 3)])), Suc s))
       (JStr ''job-1'') (0::nat) = None"
proof -
  note inst = poll_missing_status_keeps_polling
    [where serve = "\<lambda>s rq. (Some (ok_json (JObj [(''progress'', JInt 3)])), Suc s)"
       and b = "0::nat" and ?b1.0 = "Suc 0" and job_id = "JStr ''job-1''"
       and r = "ok_json (JObj [(''progress'', JInt 3)])"]
  have a: "lacks_status (ok_json (JObj [(''progress'', JInt 3)]))"
    by (simp add: response_eval)
  from inst [THEN conjunct1] a
  have b: "poll_job_status (\<lambda>s rq. (Some (ok_json (JObj [(''progress'', JInt 3)])), Suc s))
       (JStr ''job-1'') (0::nat) =
     Option.bind
       (poll_job_status (\<lambda>s rq. (Some (ok_json (JObj [(''progress'', JInt 3)])), Suc s))
          (JStr ''job-1'') (Suc 0))
       (\<lambda>out. Some (prepend
          [Http (Get_job (JStr ''job-1'')),
           Print ''Job status: {status}, progress: {progress}%'' [JNull, JInt 3],
           Sleep 5] out))"
    by (simp add: body_get_def ok_json_def)
  from inst [THEN conjunct2] a
  have c: "poll_job_status (\<lambda>s rq. (Some (ok_json (JObj [(''progress'', JInt 3)])), Suc s))
       (JStr ''job-1'') (0::nat) = None"
    by simp
  show ?thesis by (intro conjI a b c)
qed

section \<open>Properties of the pipeline\<close>

lemma bind_Inr: "m b = Some (Inr x, b1, evs) \<Longrightarrow> bind m f b = map_option (prepend evs) (f x b1)"
  by (simp add: bind_def)

lemma poll_replay_success:
  "status_of r = Some (JStr ''success'') \<Longrightarrow>
     poll_job_status replay job_id (r # rs) =
       Some (Inr (the (json_body r)), rs,
             [Http (Get_job job_id), Print ''Job completed successfully.'' []])"
  by (rule poll_success [where serve = replay, OF replay_Cons])

lemma poll_replay_failure:
  "status_of r = Some (JStr ''failure'') \<Longrightarrow>
     poll_job_status replay job_id (r # rs) =
       Some (Inl (Exception ''Scenario.gg job failed.''), rs,
             [Http (Get_job job_id), Print ''Job failed:'' [body_get r ''error'' JNull]])"
  by (rule poll_failure [where serve = replay, OF replay_Cons])

lemma poll_replay_waiting:
  "in_progress r \<Longrightarrow>
     poll_job_status replay job_id (r # rs) =
       Option.bind (poll_job_status replay job_id rs)
         (\<lambda>out. Some (prepend (waiting_events job_id r) out))"
  by (rule poll_in_progress [where serve = replay, OF replay_Cons])

lemmas python_defs = response_json_def dict_get_def getitem_key_def getitem_0_def truthy_def

lemmas replay_eval = io_defs python_defs replay_def response_eval
  poll_replay_success poll_replay_failure poll_replay_waiting

lemma extract_asset_id_first:
  assumes "dict_get job_result ''outputs'' (JArr []) = Inr (JArr (JObj out # outs))"
    and "map_of out ''assetIds'' = Some (JArr (asset # assets))"
  shows "extract_asset_id job_result b =
           Some (Inr asset, b, [Print ''Generated image asset ID: {generated_asset_id}'' [asset]])"
  using assms by (simp add: extract_asset_id_def io_defs python_defs)

lemma extract_asset_id_no_outputs:
  assumes "dict_get job_result ''outputs'' (JArr []) = Inr (JArr [])"
  shows "extract_asset_id job_result b =
           Some (Inl (Exception ''No outputs found for generation job.''), b, [])"
  using assms by (simp add: extract_asset_id_def io_defs python_defs)

lemma extract_asset_id_no_field:
  assumes "dict_get job_result ''outputs'' (JArr []) = Inr (JArr (JObj out # outs))"
    and "dict_get (JObj out) ''assetIds'' JNull = Inr JNull"
  shows "extract_asset_id job_result b = Some (Inl TypeError, b, [])"
  using assms by (simp add: extract_asset_id_def io_defs python_defs)

lemma extract_asset_id_empty:
  assumes "dict_get job_result ''outputs'' (JArr []) = Inr (JArr (JObj out # outs))"
    and "map_of out ''assetIds'' = Some (JArr [])"
  shows "extract_asset_id job_result b = Some (Inl IndexError, b, [])"
  using assms by (simp add: extract_asset_id_def io_defs python_defs)

lemma await_img2img_replay:
  "await_img2img replay a
     (ok_json (JObj [(''jobId'', job_id)]) # ok_json (JObj ((''status'', JStr ''success'') # kvs)) # rest) =
   Some (Inr (JObj ((''status'', JStr ''success'') # kvs)), rest,
         [Print ''Generating sprite sheet for: {prompt}'' [JStr (prompt a)],
          Http (Post_img2img (img2img_payload a)),
          Print ''Generation job started. Job ID: {job_id}'' [job_id],
          Http (Get_job job_id),
          Print ''Job completed successfully.'' []])"
  by (simp add: await_img2img_def submit_img2img_def replay_eval)

lemma fetch_final_image_no_url:
  assumes "dict_get result ''outputs'' (JArr []) = Inr (JArr (JObj out # outs))"
    and "dict_get (JObj out) ''url'' JNull = Inr JNull"
  shows "fetch_final_image serve result b =
           Some (Inl MissingSchema, b, [Print ''Final image URL: {final_image_url}'' [JNull]])"
  using assms
  by (simp add: fetch_final_image_def download_def requests_get_def io_defs python_defs)

lemma fetch_final_image_url:
  assumes "dict_get result ''outputs'' (JArr []) = Inr (JArr (JObj out # outs))"
    and "map_of out ''url'' = Some (JStr u)"
    and "http_url u"
    and "serve b (Get_url u) = (Some image_response, b1)"
    and "raise_for_status image_response = Inr ()"
  shows "fetch_final_image serve result b =
           Some (Inr image_response, b1,
                 [Print ''Final image URL: {final_image_url}'' [JStr u], Http (Get_url u)])"
  using assms
  by (simp add: fetch_final_image_def download_def requests_get_def io_defs python_defs)

lemma fetch_final_image_refused:
  assumes "dict_get result ''outputs'' (JArr []) = Inr (JArr (JObj out # outs))"
    and "map_of out ''url'' = Some (JStr u)"
    and "\<not> http_url u"
  shows "fetch_final_image serve result b =
           Some (Inl URLRefused, b, [Print ''Final image URL: {final_image_url}'' [JStr u]])"
  using assms
  by (simp add: fetch_final_image_def download_def requests_get_def io_defs python_defs)

lemma await_remove_background_replay:
  "await_remove_background replay asset
     (ok_json (JObj [(''jobId'', job_id)]) # ok_json (JObj ((''status'', JStr ''success'') # kvs)) # rest) =
   Some (Inr (JObj ((''status'', JStr ''success'') # kvs)), rest,
         [Print ''Removing background...'' [],
          Http (Post_remove_background (JObj [(''assetId'', asset), (''outputFormat'', JStr ''png'')])),
          Print ''Background removal job started. Job ID: {remove_bg_job_id}'' [job_id],
          Http (Get_job job_id),
          Print ''Job completed successfully.'' []])"
  by (simp add: await_remove_background_def submit_remove_background_def replay_eval)



text \<open>
  C7. When the generation job has returned its payload, the generation step gives the
  first asset identifier of the first output; a payload without outputs raises
  \<^verbatim>\<open>Exception("No outputs found for generation job.")\<close>, and a first output without
  asset identifiers raises the error of the subscript on line 93 (\<^verbatim>\<open>TypeError\<close> when
  the field is missing or null, \<^verbatim>\<open>IndexError\<close> when the list is empty). In the
  failing cases no request follows the last status query.
\<close>

theorem generate_extracts_first_asset:
  assumes "await_img2img serve a b = Some (Inr job_result, b1, evs)"
    and "dict_get job_result ''outputs'' (JArr []) = Inr outputs"
  shows "(outputs = JArr (JObj out # outs) \<and> map_of out ''assetIds'' = Some (JArr (asset # assets)) \<longrightarrow>
            generation_step serve a b =
              Some (Inr asset, b1,
                    evs @ [Print ''Generated image asset ID: {generated_asset_id}'' [asset]]))
       \<and> (outputs = JArr [] \<longrightarrow>
            generation_step serve a b =
              Some (Inl (Exception ''No outputs found for generation job.''), b1, evs))
       \<and> (outputs = JArr (JObj out # outs) \<and> dict_get (JObj out) ''assetIds'' JNull = Inr JNull \<longrightarrow>
            generation_step serve a b = Some (Inl TypeError, b1, evs))
       \<and> (outputs = JArr (JObj out # outs) \<and> map_of out ''assetIds'' = Some (JArr []) \<longrightarrow>
            generation_step serve a b = Some (Inl IndexError, b1, evs))"
  using assms
  by (simp add: generation_step_def bind_Inr extract_asset_id_first extract_asset_id_no_outputs
      extract_asset_id_no_field extract_asset_id_empty prepend_def)

theorem generate_extracts_first_asset_witness:
  "generation_step replay male_warrior
     [ok_json (JObj [(''jobId'', JStr ''job-1'')]),
      ok_json (JObj [(''status'', JStr ''success''),
                     (''outputs'', JArr [JObj [(''assetIds'', JArr [JStr ''A1'', JStr ''A2''])],
                                         JObj [(''assetIds'', JArr [JStr ''B1''])]])])] =
   Some (Inr (JStr ''A1''), [],
         [Print ''Generating sprite sheet for: {prompt}'' [JStr (prompt male_warrior)],
          Http (Post_img2img (img2img_payload male_warrior)),
          Print ''Generation job started. Job ID: {job_id}'' [JStr ''job-1''],
          Http (Get_job (JStr ''job-1'')),
          Print ''Job completed successfully.'' [],
          Print ''Generated image asset ID: {generated_asset_id}'' [JStr ''A1'']])
   \<and> map_option fst (generation_step replay male_warrior
         [ok_json (JObj [(''jobId'', JStr ''job-1'')]),
          ok_json (JObj [(''status'', JStr ''success''), (''outputs'', JArr [])])]) =
       Some (Inl (Exception ''No outputs found for generation job.''))
   \<and> map_option fst (generation_step replay male_warrior
         [ok_json (JObj [(''jobId'', JStr ''job-1'')]),
          ok_json (JObj [(''status'', JStr ''success''), (''outputs'', JArr [JObj []])])]) =
       Some (Inl TypeError)
   \<and> map_option fst (generation_step replay male_warrior
         [ok_json (JObj [(''jobId'', JStr ''job-1'')]),
          ok_json (JObj [(''status'', JStr ''success''),
                         (''outputs'', JArr [JObj [(''assetIds'', JArr [])]])])]) =
       Some (Inl IndexError)"
proof -
  note run = await_img2img_replay [where a = male_warrior and job_id = "JStr ''job-1''" and rest = "[]"]
  have 1: "dict_get (JObj [(''status'', JStr ''success''),
                     (''outputs'', JArr [JObj [(''assetIds'', JArr [JStr ''A1'', JStr ''A2''])],
                                         JObj [(''assetIds'', JArr [JStr ''B1''])]])])
             ''outputs'' (JArr []) =
           Inr (JArr [JObj [(''assetIds'', JArr [JStr ''A1'', JStr ''A2''])],
                      JObj [(''assetIds'', JArr [JStr ''B1''])]])"
    by (simp add: dict_get_def)
  have 2: "dict_get (JObj [(''status'', JStr ''success''), (''outputs'', JArr [])])
             ''outputs'' (JArr []) = Inr (JArr [])"
    by (simp add: dict_get_def)
  have 3: "dict_get (JObj [(''status'', JStr ''success''), (''outputs'', JArr [JObj []])])
             ''outputs'' (JArr []) = Inr (JArr [JObj []])"
    by (simp add: dict_get_def)
  have 4: "dict_get (JObj [(''status'', JStr ''success''),
                           (''outputs'', JArr [JObj [(''assetIds'', JArr [])]])])
             ''outputs'' (JArr []) = Inr (JArr [JObj [(''assetIds'', JArr [])]])"
    by (simp add: dict_get_def)
  from generate_extracts_first_asset
    [OF run 1, where out = "[(''assetIds'', JArr [JStr ''A1'', JStr ''A2''])]"
       and outs = "[JObj [(''assetIds'', JArr [JStr ''B1''])]]"
       and asset = "JStr ''A1''" and assets = "[JStr ''A2'']"]
  have a: "generation_step replay male_warrior
     [ok_json (JObj [(''jobId'', JStr ''job-1'')]),
      ok_json (JObj [(''status'', JStr ''success''),
                     (''outputs'', JArr [JObj [(''assetIds'', JArr [JStr ''A1'', JStr ''A2''])],
                                         JObj [(''assetIds'', JArr [JStr ''B1''])]])])] =
   Some (Inr (JStr ''A1''), [],
         [Print ''Generating sprite sheet for: {prompt}'' [JStr (prompt male_warrior)],
          Http (Post_img2img (img2img_payload male_warrior)),
          Print ''Generation job started. Job ID: {job_id}'' [JStr ''job-1''],
          Http (Get_job (JStr ''job-1'')),
          Print ''Job completed successfully.'' [],
          Print ''Generated image asset ID: {generated_asset_id}'' [JStr ''A1'']])"
    by simp
  from generate_extracts_first_asset [OF run 2]
  have b: "map_option fst (generation_step replay male_warrior
         [ok_json (JObj [(''jobId'', JStr ''job-1'')]),
          ok_json (JObj [(''status'', JStr ''success''), (''outputs'', JArr [])])]) =
       Some (Inl (Exception ''No outputs found for generation job.''))"
    by simp
  from generate_extracts_first_asset [OF run 3, where out = "[]" and outs = "[]"]
  have c: "map_option fst (generation_step replay male_warrior
         [ok_json (JObj [(''jobId'', JStr ''job-1'')]),
          ok_json (JObj [(''status'', JStr ''success''), (''outputs'', JArr [JObj []])])]) =
       Some (Inl TypeError)"
    by (simp add: dict_get_def)
  from generate_extracts_first_asset
    [OF run 4, where out = "[(''assetIds'', JArr [])]" and outs = "[]"]
  have d: "map_option fst (generation_step replay male_warrior
         [ok_json (JObj [(''jobId'', JStr ''job-1'')]),
          ok_json (JObj [(''status'', JStr ''success''),
                         (''outputs'', JArr [JObj [(''assetIds'', JArr [])]])])]) =
       Some (Inl IndexError)"
    by simp
  show ?thesis by (intro conjI a b c d)
qed

text \<open>
  C3. When the background-removal job has returned a payload whose first output has no
  \<^verbatim>\<open>url\<close> (the field is missing or null), the source makes no check of its own:
  line 116 reads \<^verbatim>\<open>None\<close>, line 117 prints it and line 120 hands it to
  \<^verbatim>\<open>requests.get\<close>, which raises \<^verbatim>\<open>MissingSchema\<close>; nothing is sent to the backend.
  A URL text that is no HTTP URL is refused by the library in the same way. When the
  first output has an HTTP URL, that URL is the one requested, and the answer to that
  request is the image handed on.
\<close>

theorem remove_background_url:
  assumes "await_remove_background serve asset b = Some (Inr result, b1, evs)"
    and "dict_get result ''outputs'' (JArr []) = Inr (JArr (JObj out # outs))"
  shows "(dict_get (JObj out) ''url'' JNull = Inr JNull \<longrightarrow>
            remove_background_step serve asset b =
              Some (Inl MissingSchema, b1,
                    evs @ [Print ''Final image URL: {final_image_url}'' [JNull]]))
       \<and> (map_of out ''url'' = Some (JStr u) \<and> \<not> http_url u \<longrightarrow>
            remove_background_step serve asset b =
              Some (Inl URLRefused, b1,
                    evs @ [Print ''Final image URL: {final_image_url}'' [JStr u]]))
       \<and> (map_of out ''url'' = Some (JStr u) \<and> http_url u \<and>
            serve b1 (Get_url u) = (Some image_response, b2) \<and>
            raise_for_status image_response = Inr () \<longrightarrow>
            remove_background_step serve asset b =
              Some (Inr image_response, b2,
                    evs @ [Print ''Final image URL: {final_image_url}'' [JStr u], Http (Get_url u)]))"
proof (intro conjI impI)
  assume "dict_get (JObj out) ''url'' JNull = Inr JNull"
  from fetch_final_image_no_url [OF assms(2) this, of serve b1] assms(1)
  show "remove_background_step serve asset b =
              Some (Inl MissingSchema, b1,
                    evs @ [Print ''Final image URL: {final_image_url}'' [JNull]])"
    by (simp add: remove_background_step_def bind_Inr prepend_def)
next
  assume "map_of out ''url'' = Some (JStr u) \<and> \<not> http_url u"
  then have "fetch_final_image serve result b1 =
           Some (Inl URLRefused, b1, [Print ''Final image URL: {final_image_url}'' [JStr u]])"
    using fetch_final_image_refused [OF assms(2), of u serve b1] by simp
  with assms(1)
  show "remove_background_step serve asset b =
              Some (Inl URLRefused, b1,
                    evs @ [Print ''Final image URL: {final_image_url}'' [JStr u]])"
    by (simp add: remove_background_step_def bind_Inr prepend_def)
next
  assume a: "map_of out ''url'' = Some (JStr u) \<and> http_url u \<and>
            serve b1 (Get_url u) = (Some image_response, b2) \<and>
            raise_for_status image_response = Inr ()"
  then have "fetch_final_image serve result b1 =
           Some (Inr image_response, b2,
                 [Print ''Final image URL: {final_image_url}'' [JStr u], Http (Get_url u)])"
    using fetch_final_image_url [where serve = serve and b = b1, OF assms(2)] by blast
  with assms(1)
  show "remove_background_step serve asset b =
              Some (Inr image_response, b2,
                    evs @ [Print ''Final image URL: {final_image_url}'' [JStr u], Http (Get_url u)])"
    by (simp add: remove_background_step_def bind_Inr prepend_def)
qed

lemmas url_eval = http_url_def starts_with_def has_host_def is_space_def lower_def

theorem remove_background_url_witness:
  "remove_background_step replay (JStr ''A1'')
     [ok_json (JObj [(''jobId'', JStr ''job-2'')]),
      ok_json (JObj [(''status'', JStr ''success''), (''outputs'', JArr [JObj [(''assetIds'', JArr [JStr ''A3''])]])]),
      ok_bytes ''PNGDATA''] =
   Some (Inl MissingSchema, [ok_bytes ''PNGDATA''],
         [Print ''Removing background...'' [],
          Http (Post_remove_background (JObj [(''assetId'', JStr ''A1''), (''outputFormat'', JStr ''png'')])),
          Print ''Background removal job started. Job ID: {remove_bg_job_id}'' [JStr ''job-2''],
          Http (Get_job (JStr ''job-2'')),
          Print ''Job completed successfully.'' [],
          Print ''Final image URL: {final_image_url}'' [JNull]])
   \<and> remove_background_step replay (JStr ''A1'')
     [ok_json (JObj [(''jobId'', JStr ''job-2'')]),
      ok_json (JObj [(''status'', JStr ''success''), (''outputs'', JArr [JObj [(''url'', JStr ''U'')]])]),
      ok_bytes ''PNGDATA''] =
   Some (Inl URLRefused, [ok_bytes ''PNGDATA''],
         [Print ''Removing background...'' [],
          Http (Post_remove_background (JObj [(''assetId'', JStr ''A1''), (''outputFormat'', JStr ''png'')])),
          Print ''Background removal job started. Job ID: {remove_bg_job_id}'' [JStr ''job-2''],
          Http (Get_job (JStr ''job-2'')),
          Print ''Job completed successfully.'' [],
          Print ''Final image URL: {final_image_url}'' [JStr ''U'']])
   \<and> remove_background_step replay (JStr ''A1'')
     [ok_json (JObj [(''jobId'', JStr ''job-2'')]),
      ok_json (JObj [(''status'', JStr ''success''),
                     (''outputs'', JArr [JObj [(''url'', JStr ''https://cdn.example/a.png'')],
                                         JObj [(''url'', JStr ''https://cdn.example/b.png'')]])]),
      ok_bytes ''PNGDATA''] =
   Some (Inr (ok_bytes ''PNGDATA''), [],
         [Print ''Removing background...'' [],
          Http (Post_remove_background (JObj [(''assetId'', JStr ''A1''), (''outputFormat'', JStr ''png'')])),
          Print ''Background removal job started. Job ID: {remove_bg_job_id}'' [JStr ''job-2''],
          Http (Get_job (JStr ''job-2'')),
          Print ''Job completed successfully.'' [],
          Print ''Final image URL: {final_image_url}'' [JStr ''https://cdn.example/a.png''],
          Http (Get_url ''https://cdn.example/a.png'')])"
proof -
  note run = await_remove_background_replay [where asset = "JStr ''A1''" and job_id = "JStr ''job-2''"]
  have 1: "dict_get (JObj [(''status'', JStr ''success''),
                           (''outputs'', JArr [JObj [(''assetIds'', JArr [JStr ''A3''])]])])
             ''outputs'' (JArr []) = Inr (JArr [JObj [(''assetIds'', JArr [JStr ''A3''])]])"
    by (simp add: dict_get_def)
  have 2: "dict_get (JObj [(''status'', JStr ''success''),
                     (''outputs'', JArr [JObj [(''url'', JStr ''https://cdn.example/a.png'')],
                                         JObj [(''url'', JStr ''https://cdn.example/b.png'')]])])
             ''outputs'' (JArr []) =
           Inr (JArr [JObj [(''url'', JStr ''https://cdn.example/a.png'')],
                      JObj [(''url'', JStr ''https://cdn.example/b.png'')]])"
    by (simp add: dict_get_def)
  have 3: "dict_get (JObj [(''status'', JStr ''success''), (''outputs'', JArr [JObj [(''url'', JStr ''U'')]])])
             ''outputs'' (JArr []) = Inr (JArr [JObj [(''url'', JStr ''U'')]])"
    by (simp add: dict_get_def)
  have good: "http_url ''https://cdn.example/a.png''"
    by (simp add: url_eval)
  have bad: "\<not> http_url ''U''"
    by (simp add: url_eval)
  from remove_background_url [OF run 1, THEN conjunct1]
  have a: "remove_background_step replay (JStr ''A1'')
     [ok_json (JObj [(''jobId'', JStr ''job-2'')]),
      ok_json (JObj [(''status'', JStr ''success''), (''outputs'', JArr [JObj [(''assetIds'', JArr [JStr ''A3''])]])]),
      ok_bytes ''PNGDATA''] =
   Some (Inl MissingSchema, [ok_bytes ''PNGDATA''],
         [Print ''Removing background...'' [],
          Http (Post_remove_background (JObj [(''assetId'', JStr ''A1''), (''outputFormat'', JStr ''png'')])),
          Print ''Background removal job started. Job ID: {remove_bg_job_id}'' [JStr ''job-2''],
          Http (Get_job (JStr ''job-2'')),
          Print ''Job completed successfully.'' [],
          Print ''Final image URL: {final_image_url}'' [JNull]])"
    by (simp add: dict_get_def)
  from remove_background_url
    [where u = "''U''", OF run 3, THEN conjunct2, THEN conjunct1] bad
  have b: "remove_background_step replay (JStr ''A1'')
     [ok_json (JObj [(''jobId'', JStr ''job-2'')]),
      ok_json (JObj [(''status'', JStr ''success''), (''outputs'', JArr [JObj [(''url'', JStr ''U'')]])]),
      ok_bytes ''PNGDATA''] =
   Some (Inl URLRefused, [ok_bytes ''PNGDATA''],
         [Print ''Removing background...'' [],
          Http (Post_remove_background (JObj [(''assetId'', JStr ''A1''), (''outputFormat'', JStr ''png'')])),
          Print ''Background removal job started. Job ID: {remove_bg_job_id}'' [JStr ''job-2''],
          Http (Get_job (JStr ''job-2'')),
          Print ''Job completed successfully.'' [],
          Print ''Final image URL: {final_image_url}'' [JStr ''U'']])"
    by simp
  from remove_background_url
    [where u = "''https://cdn.example/a.png''"
       and image_response = "ok_bytes ''PNGDATA''" and ?b2.0 = "[]", OF run 2,
     THEN conjunct2, THEN conjunct2] good
  have c: "remove_background_step replay (JStr ''A1'')
     [ok_json (JObj [(''jobId'', JStr ''job-2'')]),
      ok_json (JObj [(''status'', JStr ''success''),
                     (''outputs'', JArr [JObj [(''url'', JStr ''https://cdn.example/a.png'')],
                                         JObj [(''url'', JStr ''https://cdn.example/b.png'')]])]),
      ok_bytes ''PNGDATA''] =
   Some (Inr (ok_bytes ''PNGDATA''), [],
         [Print ''Removing background...'' [],
          Http (Post_remove_background (JObj [(''assetId'', JStr ''A1''), (''outputFormat'', JStr ''png'')])),
          Print ''Background removal job started. Job ID: {remove_bg_job_id}'' [JStr ''job-2''],
          Http (Get_job (JStr ''job-2'')),
          Print ''Job completed successfully.'' [],
          Print ''Final image URL: {final_image_url}'' [JStr ''https://cdn.example/a.png''],
          Http (Get_url ''https://cdn.example/a.png'')])"
    by (simp add: replay_def ok_bytes_def raise_for_status_def)
  show ?thesis by (intro conjI a b c)
qed

end
